theory Spec2Isabelle
  imports Main "HOL-Library.Word"
begin

unbundle bit_operations_syntax

section \<open>Values carried by messages\<close>

text \<open>
  The message catalogue of \<^verbatim>\<open>src/viser/_messages.py\<close> is a family of Python
  dataclasses. A Python \<^verbatim>\<open>str\<close> is modelled by its UTF-8 bytes (\<^typ>\<open>string\<close>),
  \<^verbatim>\<open>bytes\<close> by a list of octets, an unbounded \<^verbatim>\<open>int\<close> by \<^typ>\<open>int\<close> and a
  \<^verbatim>\<open>float\<close> by its IEEE 754 binary64 bit pattern. No method of the file computes
  with a float, so the bit pattern is only ever carried around.
\<close>

type_synonym bytes = "8 word list"
type_synonym float64 = "64 word"
type_synonym vec3 = "float64 \<times> float64 \<times> float64"
type_synonym vec4 = "float64 \<times> float64 \<times> float64 \<times> float64"

datatype (plugins only: code) dtype = Float16 | Float32 | Float64 | UInt8 | UInt16 | UInt32

text \<open>
  A numpy array, as far as the file observes it: its \<^verbatim>\<open>shape\<close> tuple, its
  \<^verbatim>\<open>dtype\<close> and its raw buffer.
\<close>

record ndarray =
  shape :: "nat list"
  dtype :: dtype
  data :: bytes

text \<open>
  Fields that no method of the file reads (property bags, \<^verbatim>\<open>Any\<close>-typed update
  values, camera parameters, ...) are carried as generic Python values. A dictionary is
  an association list in insertion order, which is the order \<^verbatim>\<open>dict.keys()\<close>
  iterates in.
\<close>

datatype (plugins only: code) pyval =
    PyNone
  | PyBool bool
  | PyInt int
  | PyFloat float64
  | PyStr string
  | PyBytes bytes
  | PyArray ndarray
  | PyTuple "pyval list"
  | PyDict "(string \<times> pyval) list"

type_synonym fields = "(string \<times> pyval) list"

section \<open>The message catalogue\<close>

text \<open>\<^verbatim>\<open>ScenePointerEventType = Literal["click", "rect-select"]\<close>\<close>

datatype (plugins only: code) ScenePointerEventType = Click | RectSelect

text \<open>
  The concrete subclasses of \<^verbatim>\<open>_CreateSceneNodeMessage\<close>. Each adds one field,
  \<^verbatim>\<open>props\<close>, to the inherited \<^verbatim>\<open>name\<close>, and none overrides a method.
\<close>

datatype (plugins only: code) scene_node_class =
    CameraFrustumMessage | GlbMessage | FrameMessage | BatchedAxesMessage | GridMessage
  | LabelMessage | Gui3DMessage | PointCloudMessage | DirectionalLightMessage
  | AmbientLightMessage | HemisphereLightMessage | PointLightMessage | RectAreaLightMessage
  | SpotLightMessage | MeshMessage | BoxMessage | IcosphereMessage | SkinnedMeshMessage
  | BatchedMeshesMessage | BatchedGlbMessage | TransformControlsMessage | ImageMessage
  | LineSegmentsMessage | CatmullRomSplineMessage | CubicBezierSplineMessage
  | GaussianSplatsMessage

text \<open>
  The concrete subclasses of \<^verbatim>\<open>_CreateGuiComponentMessage\<close>. Each adds
  \<^verbatim>\<open>container_uuid\<close>, \<^verbatim>\<open>props\<close> and for inputs a \<^verbatim>\<open>value\<close> to the inherited
  \<^verbatim>\<open>uuid\<close>, and none overrides a method.
\<close>

datatype (plugins only: code) gui_component_class =
    GuiFolderMessage | GuiMarkdownMessage | GuiHtmlMessage | GuiProgressBarMessage
  | GuiPlotlyMessage | GuiUplotMessage | GuiImageMessage | GuiTabGroupMessage
  | GuiButtonMessage | GuiUploadButtonMessage | GuiSliderMessage | GuiMultiSliderMessage
  | GuiNumberMessage | GuiRgbMessage | GuiRgbaMessage | GuiCheckboxMessage
  | GuiVector2Message | GuiVector3Message | GuiTextMessage | GuiDropdownMessage
  | GuiButtonGroupMessage

text \<open>
  One constructor per message class, with the fields in declaration order. The two
  create families are one constructor each, tagged with the concrete subclass:
  \<^item> \<open>CreateSceneNodeMessage c name props\<close>;
  \<^item> \<open>CreateGuiComponentMessage c uuid rest\<close>, where \<open>rest\<close> holds the subclass's own
    fields by name.
  Fields typed \<^verbatim>\<open>Literal[...]\<close> that no method reads are carried as strings, and
  the larger payloads (\<^verbatim>\<open>ViewerCameraMessage\<close>, \<^verbatim>\<open>ThemeConfigurationMessage\<close>, ...)
  as their fields by name.
\<close>

datatype (plugins only: code) message =
    CreateSceneNodeMessage scene_node_class string pyval
  | RemoveSceneNodeMessage string
  | CreateGuiComponentMessage gui_component_class string fields
  | GuiRemoveMessage string
  | RunJavascriptMessage string
  | NotificationMessage string string pyval
  | RemoveNotificationMessage string
  | ViewerCameraMessage fields
  | ScenePointerMessage ScenePointerEventType fields
  | ScenePointerEnableMessage bool ScenePointerEventType
  | EnvironmentMapMessage fields
  | EnableLightsMessage bool bool
  | SetBoneOrientationMessage string int vec4
  | SetBonePositionMessage string int vec3
  | SetCameraPositionMessage vec3
  | SetCameraUpDirectionMessage vec3
  | SetCameraLookAtMessage vec3
  | SetCameraNearMessage float64
  | SetCameraFarMessage float64
  | SetCameraFovMessage float64
  | SetOrientationMessage string vec4
  | SetPositionMessage string vec3
  | TransformControlsUpdateMessage string vec4 vec3
  | TransformControlsDragStartMessage string
  | TransformControlsDragEndMessage string
  | BackgroundImageMessage string "bytes option" "bytes option"
  | SetSceneNodeVisibilityMessage string bool
  | SetSceneNodeClickableMessage string bool
  | SceneNodeClickMessage string fields
  | ResetGuiMessage
  | GuiModalMessage float64 string string
  | GuiCloseModalMessage string
  | GuiUpdateMessage string fields
  | SceneNodeUpdateMessage string fields
  | ThemeConfigurationMessage fields
  | GetRenderRequestMessage fields
  | GetRenderResponseMessage bytes
  | FileTransferStartUpload string string string string int int
  | FileTransferStartDownload bool string string string int int
  | FileTransferPart "string option" string int bytes
  | FileTransferPartAck "string option" string int int
  | ShareUrlRequest
  | ShareUrlUpdated "string option"
  | ShareUrlDisconnect
  | SetGuiPanelLabelMessage "string option"

section \<open>Python string primitives\<close>

text \<open>\<^verbatim>\<open>sep.join(parts)\<close>\<close>

fun join :: "string \<Rightarrow> string list \<Rightarrow> string" where
  "join sep [] = []"
| "join sep [x] = x"
| "join sep (x # y # ys) = x @ sep @ join sep (y # ys)"

text \<open>\<^verbatim>\<open>str(n)\<close> for an \<^verbatim>\<open>int\<close>: decimal, no leading zeros, a minus sign when negative.\<close>

definition digit_char :: "nat \<Rightarrow> char" where
  "digit_char d = ''0123456789'' ! d"

fun str_nat :: "nat \<Rightarrow> string" where
  "str_nat n = (if n < 10 then [digit_char n] else str_nat (n div 10) @ [digit_char (n mod 10)])"

declare str_nat.simps [simp del]

definition str_int :: "int \<Rightarrow> string" where
  "str_int i = (if i < 0 then CHR ''-'' # str_nat (nat (- i)) else str_nat (nat i))"

text \<open>\<^verbatim>\<open>str(b)\<close> for a \<^verbatim>\<open>bool\<close>, and \<^verbatim>\<open>s.lower()\<close> (on ASCII letters).\<close>

definition str_bool :: "bool \<Rightarrow> string" where
  "str_bool b = (if b then ''True'' else ''False'')"

definition lower_char :: "char \<Rightarrow> char" where
  "lower_char c =
     (case map_of (zip ''ABCDEFGHIJKLMNOPQRSTUVWXYZ'' ''abcdefghijklmnopqrstuvwxyz'') c of
        Some l \<Rightarrow> l
      | None \<Rightarrow> c)"

definition lower :: "string \<Rightarrow> string" where
  "lower s = map lower_char s"

section \<open>The random source and \<^verbatim>\<open>uuid.uuid4()\<close>\<close>

text \<open>
  \<^verbatim>\<open>uuid.uuid4()\<close> reads 16 bytes from \<^verbatim>\<open>os.urandom\<close>. The operating system's
  random source is the environment of the program: it is modelled as the sequence of
  the 16-byte values it is going to return, each read as a big-endian integer. Reading
  takes the first value and leaves the rest.
\<close>

type_synonym entropy = "nat \<Rightarrow> 128 word"

definition os_urandom16 :: "entropy \<Rightarrow> 128 word \<times> entropy" where
  "os_urandom16 e = (e 0, \<lambda>n. e (Suc n))"

text \<open>
  \<^verbatim>\<open>UUID(bytes=os.urandom(16), version=4)\<close>: the variant bits are set to RFC 4122 and
  the version nibble to 4.
\<close>

definition uuid4 :: "entropy \<Rightarrow> 128 word \<times> entropy" where
  "uuid4 e =
     (case os_urandom16 e of (b, e') \<Rightarrow>
        let i1 = b AND NOT (push_bit 48 0xc000);
            i2 = i1 OR push_bit 48 0x8000;
            i3 = i2 AND NOT (push_bit 64 0xf000);
            i4 = i3 OR push_bit 76 4
        in (i4, e'))"

text \<open>
  \<^verbatim>\<open>str(u)\<close> for a UUID: the 32 lowercase hexadecimal digits of its integer, grouped
  8-4-4-4-12.
\<close>

definition hex_char :: "nat \<Rightarrow> char" where
  "hex_char d = ''0123456789abcdef'' ! d"

fun hex_digits :: "nat \<Rightarrow> nat \<Rightarrow> string" where
  "hex_digits 0 n = []"
| "hex_digits (Suc k) n = hex_digits k (n div 16) @ [hex_char (n mod 16)]"

definition str_uuid :: "128 word \<Rightarrow> string" where
  "str_uuid u =
     (let x = hex_digits 32 (unat u)
      in take 8 x @ ''-'' @ take 4 (drop 8 x) @ ''-'' @ take 4 (drop 12 x) @ ''-''
           @ take 4 (drop 16 x) @ ''-'' @ drop 20 x)"

section \<open>Redundancy keys\<close>

text \<open>\<^verbatim>\<open>type(self).__name__\<close>\<close>

fun scene_node_class_name :: "scene_node_class \<Rightarrow> string" where
  "scene_node_class_name CameraFrustumMessage = ''CameraFrustumMessage''"
| "scene_node_class_name GlbMessage = ''GlbMessage''"
| "scene_node_class_name FrameMessage = ''FrameMessage''"
| "scene_node_class_name BatchedAxesMessage = ''BatchedAxesMessage''"
| "scene_node_class_name GridMessage = ''GridMessage''"
| "scene_node_class_name LabelMessage = ''LabelMessage''"
| "scene_node_class_name Gui3DMessage = ''Gui3DMessage''"
| "scene_node_class_name PointCloudMessage = ''PointCloudMessage''"
| "scene_node_class_name DirectionalLightMessage = ''DirectionalLightMessage''"
| "scene_node_class_name AmbientLightMessage = ''AmbientLightMessage''"
| "scene_node_class_name HemisphereLightMessage = ''HemisphereLightMessage''"
| "scene_node_class_name PointLightMessage = ''PointLightMessage''"
| "scene_node_class_name RectAreaLightMessage = ''RectAreaLightMessage''"
| "scene_node_class_name SpotLightMessage = ''SpotLightMessage''"
| "scene_node_class_name MeshMessage = ''MeshMessage''"
| "scene_node_class_name BoxMessage = ''BoxMessage''"
| "scene_node_class_name IcosphereMessage = ''IcosphereMessage''"
| "scene_node_class_name SkinnedMeshMessage = ''SkinnedMeshMessage''"
| "scene_node_class_name BatchedMeshesMessage = ''BatchedMeshesMessage''"
| "scene_node_class_name BatchedGlbMessage = ''BatchedGlbMessage''"
| "scene_node_class_name TransformControlsMessage = ''TransformControlsMessage''"
| "scene_node_class_name ImageMessage = ''ImageMessage''"
| "scene_node_class_name LineSegmentsMessage = ''LineSegmentsMessage''"
| "scene_node_class_name CatmullRomSplineMessage = ''CatmullRomSplineMessage''"
| "scene_node_class_name CubicBezierSplineMessage = ''CubicBezierSplineMessage''"
| "scene_node_class_name GaussianSplatsMessage = ''GaussianSplatsMessage''"

fun gui_component_class_name :: "gui_component_class \<Rightarrow> string" where
  "gui_component_class_name GuiFolderMessage = ''GuiFolderMessage''"
| "gui_component_class_name GuiMarkdownMessage = ''GuiMarkdownMessage''"
| "gui_component_class_name GuiHtmlMessage = ''GuiHtmlMessage''"
| "gui_component_class_name GuiProgressBarMessage = ''GuiProgressBarMessage''"
| "gui_component_class_name GuiPlotlyMessage = ''GuiPlotlyMessage''"
| "gui_component_class_name GuiUplotMessage = ''GuiUplotMessage''"
| "gui_component_class_name GuiImageMessage = ''GuiImageMessage''"
| "gui_component_class_name GuiTabGroupMessage = ''GuiTabGroupMessage''"
| "gui_component_class_name GuiButtonMessage = ''GuiButtonMessage''"
| "gui_component_class_name GuiUploadButtonMessage = ''GuiUploadButtonMessage''"
| "gui_component_class_name GuiSliderMessage = ''GuiSliderMessage''"
| "gui_component_class_name GuiMultiSliderMessage = ''GuiMultiSliderMessage''"
| "gui_component_class_name GuiNumberMessage = ''GuiNumberMessage''"
| "gui_component_class_name GuiRgbMessage = ''GuiRgbMessage''"
| "gui_component_class_name GuiRgbaMessage = ''GuiRgbaMessage''"
| "gui_component_class_name GuiCheckboxMessage = ''GuiCheckboxMessage''"
| "gui_component_class_name GuiVector2Message = ''GuiVector2Message''"
| "gui_component_class_name GuiVector3Message = ''GuiVector3Message''"
| "gui_component_class_name GuiTextMessage = ''GuiTextMessage''"
| "gui_component_class_name GuiDropdownMessage = ''GuiDropdownMessage''"
| "gui_component_class_name GuiButtonGroupMessage = ''GuiButtonGroupMessage''"

fun type_name :: "message \<Rightarrow> string" where
  "type_name (CreateSceneNodeMessage c name props) = scene_node_class_name c"
| "type_name (RemoveSceneNodeMessage name) = ''RemoveSceneNodeMessage''"
| "type_name (CreateGuiComponentMessage c uuid rest) = gui_component_class_name c"
| "type_name (GuiRemoveMessage uuid) = ''GuiRemoveMessage''"
| "type_name (RunJavascriptMessage source) = ''RunJavascriptMessage''"
| "type_name (NotificationMessage mode uuid props) = ''NotificationMessage''"
| "type_name (RemoveNotificationMessage uuid) = ''RemoveNotificationMessage''"
| "type_name (ViewerCameraMessage fs) = ''ViewerCameraMessage''"
| "type_name (ScenePointerMessage event_type fs) = ''ScenePointerMessage''"
| "type_name (ScenePointerEnableMessage enable event_type) = ''ScenePointerEnableMessage''"
| "type_name (EnvironmentMapMessage fs) = ''EnvironmentMapMessage''"
| "type_name (EnableLightsMessage enabled cast_shadow) = ''EnableLightsMessage''"
| "type_name (SetBoneOrientationMessage name bone_index wxyz) = ''SetBoneOrientationMessage''"
| "type_name (SetBonePositionMessage name bone_index position) = ''SetBonePositionMessage''"
| "type_name (SetCameraPositionMessage position) = ''SetCameraPositionMessage''"
| "type_name (SetCameraUpDirectionMessage position) = ''SetCameraUpDirectionMessage''"
| "type_name (SetCameraLookAtMessage look_at) = ''SetCameraLookAtMessage''"
| "type_name (SetCameraNearMessage near) = ''SetCameraNearMessage''"
| "type_name (SetCameraFarMessage far) = ''SetCameraFarMessage''"
| "type_name (SetCameraFovMessage fov) = ''SetCameraFovMessage''"
| "type_name (SetOrientationMessage name wxyz) = ''SetOrientationMessage''"
| "type_name (SetPositionMessage name position) = ''SetPositionMessage''"
| "type_name (TransformControlsUpdateMessage name wxyz position) = ''TransformControlsUpdateMessage''"
| "type_name (TransformControlsDragStartMessage name) = ''TransformControlsDragStartMessage''"
| "type_name (TransformControlsDragEndMessage name) = ''TransformControlsDragEndMessage''"
| "type_name (BackgroundImageMessage media_type rgb_data depth_data) = ''BackgroundImageMessage''"
| "type_name (SetSceneNodeVisibilityMessage name visible) = ''SetSceneNodeVisibilityMessage''"
| "type_name (SetSceneNodeClickableMessage name clickable) = ''SetSceneNodeClickableMessage''"
| "type_name (SceneNodeClickMessage name fs) = ''SceneNodeClickMessage''"
| "type_name ResetGuiMessage = ''ResetGuiMessage''"
| "type_name (GuiModalMessage order uuid title) = ''GuiModalMessage''"
| "type_name (GuiCloseModalMessage uuid) = ''GuiCloseModalMessage''"
| "type_name (GuiUpdateMessage uuid updates) = ''GuiUpdateMessage''"
| "type_name (SceneNodeUpdateMessage name updates) = ''SceneNodeUpdateMessage''"
| "type_name (ThemeConfigurationMessage fs) = ''ThemeConfigurationMessage''"
| "type_name (GetRenderRequestMessage fs) = ''GetRenderRequestMessage''"
| "type_name (GetRenderResponseMessage payload) = ''GetRenderResponseMessage''"
| "type_name (FileTransferStartUpload source_component_uuid transfer_uuid filename mime_type part_count size_bytes) = ''FileTransferStartUpload''"
| "type_name (FileTransferStartDownload save_immediately transfer_uuid filename mime_type part_count size_bytes) = ''FileTransferStartDownload''"
| "type_name (FileTransferPart source_component_uuid transfer_uuid part_index content) = ''FileTransferPart''"
| "type_name (FileTransferPartAck source_component_uuid transfer_uuid transferred_bytes total_bytes) = ''FileTransferPartAck''"
| "type_name ShareUrlRequest = ''ShareUrlRequest''"
| "type_name (ShareUrlUpdated share_url) = ''ShareUrlUpdated''"
| "type_name ShareUrlDisconnect = ''ShareUrlDisconnect''"
| "type_name (SetGuiPanelLabelMessage label) = ''SetGuiPanelLabelMessage''"

text \<open>
  \<^verbatim>\<open>getattr(self, "name", None)\<close> and \<^verbatim>\<open>getattr(self, "uuid", None)\<close>: the field of that
  name when the class declares one (all are typed \<^verbatim>\<open>str\<close>), \<^verbatim>\<open>None\<close> otherwise.
\<close>

fun name_attr :: "message \<Rightarrow> string option" where
  "name_attr (CreateSceneNodeMessage c name props) = Some name"
| "name_attr (RemoveSceneNodeMessage name) = Some name"
| "name_attr (SetBoneOrientationMessage name bone_index wxyz) = Some name"
| "name_attr (SetBonePositionMessage name bone_index position) = Some name"
| "name_attr (SetOrientationMessage name wxyz) = Some name"
| "name_attr (SetPositionMessage name position) = Some name"
| "name_attr (TransformControlsUpdateMessage name wxyz position) = Some name"
| "name_attr (TransformControlsDragStartMessage name) = Some name"
| "name_attr (TransformControlsDragEndMessage name) = Some name"
| "name_attr (SetSceneNodeVisibilityMessage name visible) = Some name"
| "name_attr (SetSceneNodeClickableMessage name clickable) = Some name"
| "name_attr (SceneNodeClickMessage name fs) = Some name"
| "name_attr (SceneNodeUpdateMessage name updates) = Some name"
| "name_attr m = None"

fun uuid_attr :: "message \<Rightarrow> string option" where
  "uuid_attr (CreateGuiComponentMessage c uuid rest) = Some uuid"
| "uuid_attr (GuiRemoveMessage uuid) = Some uuid"
| "uuid_attr (NotificationMessage mode uuid props) = Some uuid"
| "uuid_attr (RemoveNotificationMessage uuid) = Some uuid"
| "uuid_attr (GuiModalMessage order uuid title) = Some uuid"
| "uuid_attr (GuiCloseModalMessage uuid) = Some uuid"
| "uuid_attr (GuiUpdateMessage uuid updates) = Some uuid"
| "uuid_attr m = None"

text \<open>
  \<^verbatim>\<open>Message.redundancy_key\<close>, the method every class inherits unless it (or its base
  class) overrides it: the class name, then the \<^verbatim>\<open>name\<close> field and the \<^verbatim>\<open>uuid\<close> field
  where present, joined by underscores.
\<close>

definition Message_redundancy_key :: "message \<Rightarrow> string" where
  "Message_redundancy_key self =
     (let parts = [type_name self];
          parts = (case name_attr self of None \<Rightarrow> parts | Some node_name \<Rightarrow> parts @ [node_name]);
          parts = (case uuid_attr self of None \<Rightarrow> parts | Some node_name \<Rightarrow> parts @ [node_name])
      in join ''_'' parts)"

text \<open>\<^verbatim>\<open>self.event_type\<close> is the literal string itself.\<close>

fun event_type_str :: "ScenePointerEventType \<Rightarrow> string" where
  "event_type_str Click = ''click''"
| "event_type_str RectSelect = ''rect-select''"

text \<open>
  \<^verbatim>\<open>redundancy_key\<close> with its overrides, in the order of the file. The call takes the
  random source and returns what is left of it: only \<^verbatim>\<open>RunJavascriptMessage\<close> reads it.
\<close>

fun redundancy_key :: "message \<Rightarrow> entropy \<Rightarrow> string \<times> entropy" where
  "redundancy_key (CreateSceneNodeMessage c name props) e =
     (''create-or-remove-scene-'' @ name, e)"
| "redundancy_key (RemoveSceneNodeMessage name) e =
     (''create-or-remove-scene-'' @ name, e)"
| "redundancy_key (CreateGuiComponentMessage c uuid rest) e =
     (''create-or-remove-gui-'' @ uuid, e)"
| "redundancy_key (GuiRemoveMessage uuid) e =
     (''create-or-remove-gui-'' @ uuid, e)"
| "redundancy_key (RunJavascriptMessage source) e =
     (case uuid4 e of (u, e') \<Rightarrow> (str_uuid u, e'))"
| "redundancy_key (ScenePointerEnableMessage enable event_type) e =
     (type_name (ScenePointerEnableMessage enable event_type) @ ''-'' @ event_type_str event_type
        @ ''-'' @ lower (str_bool enable), e)"
| "redundancy_key (SetBoneOrientationMessage name bone_index wxyz) e =
     (type_name (SetBoneOrientationMessage name bone_index wxyz) @ ''-'' @ name @ ''-''
        @ str_int bone_index, e)"
| "redundancy_key (SetBonePositionMessage name bone_index position) e =
     (type_name (SetBonePositionMessage name bone_index position) @ ''-'' @ name @ ''-''
        @ str_int bone_index, e)"
| "redundancy_key (GuiModalMessage order uuid title) e = (''modal-'' @ uuid, e)"
| "redundancy_key (GuiCloseModalMessage uuid) e = (''modal-'' @ uuid, e)"
| "redundancy_key (GuiUpdateMessage uuid updates) e =
     (type_name (GuiUpdateMessage uuid updates) @ ''-'' @ uuid @ ''-''
        @ join '','' (map fst updates), e)"
| "redundancy_key (SceneNodeUpdateMessage name updates) e =
     (type_name (SceneNodeUpdateMessage name updates) @ ''-'' @ name @ ''-''
        @ join '','' (map fst updates), e)"
| "redundancy_key (FileTransferStartUpload source_component_uuid transfer_uuid filename mime_type part_count size_bytes) e =
     (type_name (FileTransferStartUpload source_component_uuid transfer_uuid filename mime_type part_count size_bytes)
        @ ''-'' @ transfer_uuid, e)"
| "redundancy_key (FileTransferStartDownload save_immediately transfer_uuid filename mime_type part_count size_bytes) e =
     (type_name (FileTransferStartDownload save_immediately transfer_uuid filename mime_type part_count size_bytes)
        @ ''-'' @ transfer_uuid, e)"
| "redundancy_key (FileTransferPart source_component_uuid transfer_uuid part_index content) e =
     (type_name (FileTransferPart source_component_uuid transfer_uuid part_index content)
        @ ''-'' @ transfer_uuid @ ''-'' @ str_int part_index, e)"
| "redundancy_key (FileTransferPartAck source_component_uuid transfer_uuid transferred_bytes total_bytes) e =
     (type_name (FileTransferPartAck source_component_uuid transfer_uuid transferred_bytes total_bytes)
        @ ''-'' @ transfer_uuid @ ''-'' @ str_int transferred_bytes, e)"
| "redundancy_key m e = (Message_redundancy_key m, e)"

text \<open>\<^verbatim>\<open>isinstance(m, RunJavascriptMessage)\<close>\<close>

fun is_RunJavascriptMessage :: "message \<Rightarrow> bool" where
  "is_RunJavascriptMessage (RunJavascriptMessage source) = True"
| "is_RunJavascriptMessage m = False"

text \<open>
  Method resolution: whether \<^verbatim>\<open>redundancy_key\<close> of the message's class is
  \<^verbatim>\<open>Message.redundancy_key\<close> itself, that is, neither the class nor a base class
  between it and \<^verbatim>\<open>Message\<close> defines the method. The classes that do, in the order of
  the file, are listed; every other class inherits.
\<close>

fun inherits_Message_redundancy_key :: "message \<Rightarrow> bool" where
  "inherits_Message_redundancy_key (CreateSceneNodeMessage c name props) = False"
| "inherits_Message_redundancy_key (RemoveSceneNodeMessage name) = False"
| "inherits_Message_redundancy_key (CreateGuiComponentMessage c uuid rest) = False"
| "inherits_Message_redundancy_key (GuiRemoveMessage uuid) = False"
| "inherits_Message_redundancy_key (RunJavascriptMessage source) = False"
| "inherits_Message_redundancy_key (ScenePointerEnableMessage enable event_type) = False"
| "inherits_Message_redundancy_key (SetBoneOrientationMessage name bone_index wxyz) = False"
| "inherits_Message_redundancy_key (SetBonePositionMessage name bone_index position) = False"
| "inherits_Message_redundancy_key (GuiModalMessage order uuid title) = False"
| "inherits_Message_redundancy_key (GuiCloseModalMessage uuid) = False"
| "inherits_Message_redundancy_key (GuiUpdateMessage uuid updates) = False"
| "inherits_Message_redundancy_key (SceneNodeUpdateMessage name updates) = False"
| "inherits_Message_redundancy_key (FileTransferStartUpload source_component_uuid transfer_uuid filename mime_type part_count size_bytes) = False"
| "inherits_Message_redundancy_key (FileTransferStartDownload save_immediately transfer_uuid filename mime_type part_count size_bytes) = False"
| "inherits_Message_redundancy_key (FileTransferPart source_component_uuid transfer_uuid part_index content) = False"
| "inherits_Message_redundancy_key (FileTransferPartAck source_component_uuid transfer_uuid transferred_bytes total_bytes) = False"
| "inherits_Message_redundancy_key m = True"

section \<open>Property bags with shape checks\<close>

text \<open>
  A dataclass instance is built by the generated \<^verbatim>\<open>__init__\<close>, which stores the
  fields and then calls \<^verbatim>\<open>__post_init__\<close> when the class has one (its own, or the first
  one found along the method resolution order). An \<^verbatim>\<open>assert\<close> that fails raises
  \<^verbatim>\<open>AssertionError\<close>; indexing a shape tuple out of range raises \<^verbatim>\<open>IndexError\<close>.
  Either exception leaves the constructor, so no object is built, and neither is the
  create message that would take the object as its \<^verbatim>\<open>props\<close>. (Assertions are modelled
  as the interpreter runs them by default, that is without \<^verbatim>\<open>-O\<close>.)
\<close>

datatype (plugins only: code) py_error = AssertionError | IndexError

text \<open>\<^verbatim>\<open>assert b\<close>\<close>

definition py_assert :: "bool \<Rightarrow> py_error + unit" where
  "py_assert b = (if b then Inr () else Inl AssertionError)"

text \<open>Sequencing: the first exception raised ends the method.\<close>

definition then_do :: "py_error + 'a \<Rightarrow> ('a \<Rightarrow> py_error + 'b) \<Rightarrow> py_error + 'b" where
  "then_do r f = (case r of Inl err \<Rightarrow> Inl err | Inr v \<Rightarrow> f v)"

text \<open>
  \<^verbatim>\<open>t[i]\<close> on a shape tuple: a negative index counts from the end, an index out of
  range raises.
\<close>

definition tuple_get :: "nat list \<Rightarrow> int \<Rightarrow> py_error + nat" where
  "tuple_get t i =
     (let n = int (length t); j = (if i < 0 then n + i else i)
      in if 0 \<le> j \<and> j < n then Inr (t ! nat j) else Inl IndexError)"

text \<open>The generated constructor: the object, unless \<^verbatim>\<open>__post_init__\<close> raises.\<close>

definition dataclass_new :: "('a \<Rightarrow> py_error + unit) \<Rightarrow> 'a \<Rightarrow> py_error + 'a" where
  "dataclass_new post_init self = then_do (post_init self) (\<lambda>_. Inr self)"

text \<open>The \<^verbatim>\<open>Literal[...]\<close> types of the property bags below.\<close>

datatype (plugins only: code) PointShape = Square | Diamond | Circle | Rounded | Sparkle
datatype (plugins only: code) Precision = PrecisionFloat16 | PrecisionFloat32
datatype (plugins only: code) Side = Front | Back | Double
datatype (plugins only: code) Material = Standard | Toon3 | Toon5
datatype (plugins only: code) Lod = LodAuto | LodOff | LodLevels "(float64 \<times> float64) list"

type_synonym rgb = "int \<times> int \<times> int"

text \<open>
  \<^verbatim>\<open>PointCloudProps\<close>: \<^verbatim>\<open>points\<close>, \<^verbatim>\<open>colors\<close>, \<^verbatim>\<open>point_size\<close>, \<^verbatim>\<open>point_shape\<close>,
  \<^verbatim>\<open>precision\<close>, and its \<^verbatim>\<open>__post_init__\<close>. The tuple
  \<^verbatim>\<open>((3,), (self.points.shape[0], 3))\<close> is built before the membership test.
\<close>

datatype (plugins only: code) PointCloudProps =
  PointCloudProps ndarray ndarray float64 PointShape Precision

fun PointCloudProps_post_init :: "PointCloudProps \<Rightarrow> py_error + unit" where
  "PointCloudProps_post_init (PointCloudProps points colors point_size point_shape precision) =
     then_do (py_assert (length (shape points) = 2)) (\<lambda>_.
     then_do (tuple_get (shape points) 0) (\<lambda>n.
     then_do (py_assert (shape colors = [3] \<or> shape colors = [n, 3])) (\<lambda>_.
     then_do (tuple_get (shape points) (- 1)) (\<lambda>d.
     then_do (py_assert (d = 3)) (\<lambda>_.
     then_do (if precision = PrecisionFloat16
              then py_assert (dtype points = Float16)
              else py_assert (dtype points = Float32)) (\<lambda>_.
     py_assert (dtype colors = UInt8)))))))"

definition new_PointCloudProps ::
  "ndarray \<Rightarrow> ndarray \<Rightarrow> float64 \<Rightarrow> PointShape \<Rightarrow> Precision \<Rightarrow> py_error + PointCloudProps" where
  "new_PointCloudProps points colors point_size point_shape precision =
     dataclass_new PointCloudProps_post_init (PointCloudProps points colors point_size point_shape precision)"

text \<open>
  \<^verbatim>\<open>MeshProps\<close>: \<^verbatim>\<open>vertices\<close>, \<^verbatim>\<open>faces\<close>, \<^verbatim>\<open>color\<close>, \<^verbatim>\<open>wireframe\<close>, \<^verbatim>\<open>opacity\<close>,
  \<^verbatim>\<open>flat_shading\<close>, \<^verbatim>\<open>side\<close>, \<^verbatim>\<open>material\<close>, \<^verbatim>\<open>cast_shadow\<close>, \<^verbatim>\<open>receive_shadow\<close>.
\<close>

datatype (plugins only: code) MeshProps =
  MeshProps ndarray ndarray rgb bool "float64 option" bool Side Material bool bool

fun MeshProps_post_init :: "MeshProps \<Rightarrow> py_error + unit" where
  "MeshProps_post_init (MeshProps vertices faces color wireframe opacity flat_shading side material
       cast_shadow receive_shadow) =
     then_do (tuple_get (shape vertices) (- 1)) (\<lambda>d.
     then_do (py_assert (d = 3)) (\<lambda>_.
     then_do (tuple_get (shape faces) (- 1)) (\<lambda>d.
     py_assert (d = 3))))"

text \<open>
  \<^verbatim>\<open>SkinnedMeshProps(MeshProps)\<close> adds \<^verbatim>\<open>bone_wxyzs\<close>, \<^verbatim>\<open>bone_positions\<close>,
  \<^verbatim>\<open>skin_indices\<close>, \<^verbatim>\<open>skin_weights\<close> and overrides \<^verbatim>\<open>__post_init__\<close> without calling
  the inherited one. \<^verbatim>\<open>assert self.skin_weights is not None\<close> always passes for a field
  typed as an array. The chained comparison evaluates its third operand only when the
  first two are equal.
\<close>

datatype (plugins only: code) SkinnedMeshProps =
  SkinnedMeshProps ndarray ndarray rgb bool "float64 option" bool Side Material bool bool
    ndarray ndarray ndarray ndarray

fun SkinnedMeshProps_post_init :: "SkinnedMeshProps \<Rightarrow> py_error + unit" where
  "SkinnedMeshProps_post_init (SkinnedMeshProps vertices faces color wireframe opacity flat_shading
       side material cast_shadow receive_shadow bone_wxyzs bone_positions skin_indices skin_weights) =
     then_do (tuple_get (shape bone_wxyzs) (- 1)) (\<lambda>d.
     then_do (py_assert (d = 4)) (\<lambda>_.
     then_do (tuple_get (shape bone_positions) (- 1)) (\<lambda>d.
     then_do (py_assert (d = 3)) (\<lambda>_.
     then_do (tuple_get (shape bone_wxyzs) 0) (\<lambda>b.
     then_do (tuple_get (shape bone_positions) 0) (\<lambda>b'.
     then_do (py_assert (b = b')) (\<lambda>_.
     then_do (tuple_get (shape vertices) (- 1)) (\<lambda>d.
     then_do (py_assert (d = 3)) (\<lambda>_.
     then_do (tuple_get (shape faces) (- 1)) (\<lambda>d.
     then_do (py_assert (d = 3)) (\<lambda>_.
     then_do (py_assert True) (\<lambda>_.
     if shape skin_indices = shape skin_weights
     then then_do (tuple_get (shape vertices) 0) (\<lambda>v. py_assert (shape skin_weights = [v, 4]))
     else Inl AssertionError))))))))))))"

definition new_SkinnedMeshProps ::
  "ndarray \<Rightarrow> ndarray \<Rightarrow> rgb \<Rightarrow> bool \<Rightarrow> float64 option \<Rightarrow> bool \<Rightarrow> Side \<Rightarrow> Material \<Rightarrow> bool \<Rightarrow> bool
     \<Rightarrow> ndarray \<Rightarrow> ndarray \<Rightarrow> ndarray \<Rightarrow> ndarray \<Rightarrow> py_error + SkinnedMeshProps" where
  "new_SkinnedMeshProps vertices faces color wireframe opacity flat_shading side material
       cast_shadow receive_shadow bone_wxyzs bone_positions skin_indices skin_weights =
     dataclass_new SkinnedMeshProps_post_init
       (SkinnedMeshProps vertices faces color wireframe opacity flat_shading side material
          cast_shadow receive_shadow bone_wxyzs bone_positions skin_indices skin_weights)"

text \<open>
  \<^verbatim>\<open>_BatchedMeshExtraProps\<close>: \<^verbatim>\<open>batched_wxyzs\<close>, \<^verbatim>\<open>batched_positions\<close>,
  \<^verbatim>\<open>batched_scales\<close>, \<^verbatim>\<open>lod\<close>, and its \<^verbatim>\<open>__post_init__\<close>.
\<close>

datatype (plugins only: code) BatchedMeshExtraProps =
  BatchedMeshExtraProps ndarray ndarray "ndarray option" Lod

fun BatchedMeshExtraProps_post_init :: "BatchedMeshExtraProps \<Rightarrow> py_error + unit" where
  "BatchedMeshExtraProps_post_init (BatchedMeshExtraProps batched_wxyzs batched_positions batched_scales lod) =
     then_do (tuple_get (shape batched_wxyzs) (- 1)) (\<lambda>d.
     then_do (py_assert (d = 4)) (\<lambda>_.
     then_do (tuple_get (shape batched_positions) (- 1)) (\<lambda>d.
     then_do (py_assert (d = 3)) (\<lambda>_.
     then_do (tuple_get (shape batched_wxyzs) 0) (\<lambda>n.
     then_do (tuple_get (shape batched_positions) 0) (\<lambda>n'.
     then_do (py_assert (n = n')) (\<lambda>_.
     case batched_scales of
       None \<Rightarrow> Inr ()
     | Some scales \<Rightarrow>
         then_do (tuple_get (shape batched_wxyzs) 0) (\<lambda>n1.
         then_do (tuple_get (shape batched_wxyzs) 0) (\<lambda>n2.
         py_assert (shape scales = [n1] \<or> shape scales = [n2, 3]))))))))))"

text \<open>
  \<^verbatim>\<open>BatchedMeshesProps(MeshProps, _BatchedMeshExtraProps)\<close> and
  \<^verbatim>\<open>BatchedGlbProps(GlbProps, _BatchedMeshExtraProps)\<close> declare nothing of their own. The
  fields of the second base come first in the generated constructor. \<^verbatim>\<open>__post_init__\<close>
  is looked up along the method resolution order, first base first: for
  \<^verbatim>\<open>BatchedMeshesProps\<close> it is the one of \<^verbatim>\<open>MeshProps\<close> (which does not call on to the next
  class), for \<^verbatim>\<open>BatchedGlbProps\<close> the one of \<^verbatim>\<open>_BatchedMeshExtraProps\<close>, since
  \<^verbatim>\<open>GlbProps\<close> (\<^verbatim>\<open>glb_data\<close>, \<^verbatim>\<open>scale\<close>, \<^verbatim>\<open>cast_shadow\<close>, \<^verbatim>\<open>receive_shadow\<close>) has none.
\<close>

datatype (plugins only: code) BatchedMeshesProps =
  BatchedMeshesProps ndarray ndarray "ndarray option" Lod
    ndarray ndarray rgb bool "float64 option" bool Side Material bool bool

fun BatchedMeshesProps_post_init :: "BatchedMeshesProps \<Rightarrow> py_error + unit" where
  "BatchedMeshesProps_post_init (BatchedMeshesProps batched_wxyzs batched_positions batched_scales lod
       vertices faces color wireframe opacity flat_shading side material cast_shadow receive_shadow) =
     MeshProps_post_init (MeshProps vertices faces color wireframe opacity flat_shading side material
       cast_shadow receive_shadow)"

datatype (plugins only: code) BatchedGlbProps =
  BatchedGlbProps ndarray ndarray "ndarray option" Lod bytes float64 bool bool

fun BatchedGlbProps_post_init :: "BatchedGlbProps \<Rightarrow> py_error + unit" where
  "BatchedGlbProps_post_init (BatchedGlbProps batched_wxyzs batched_positions batched_scales lod
       glb_data scale cast_shadow receive_shadow) =
     BatchedMeshExtraProps_post_init (BatchedMeshExtraProps batched_wxyzs batched_positions batched_scales lod)"

definition new_BatchedGlbProps ::
  "ndarray \<Rightarrow> ndarray \<Rightarrow> ndarray option \<Rightarrow> Lod \<Rightarrow> bytes \<Rightarrow> float64 \<Rightarrow> bool \<Rightarrow> bool
     \<Rightarrow> py_error + BatchedGlbProps" where
  "new_BatchedGlbProps batched_wxyzs batched_positions batched_scales lod glb_data scale
       cast_shadow receive_shadow =
     dataclass_new BatchedGlbProps_post_init
       (BatchedGlbProps batched_wxyzs batched_positions batched_scales lod glb_data scale
          cast_shadow receive_shadow)"

definition new_BatchedMeshesProps ::
  "ndarray \<Rightarrow> ndarray \<Rightarrow> ndarray option \<Rightarrow> Lod \<Rightarrow> ndarray \<Rightarrow> ndarray \<Rightarrow> rgb \<Rightarrow> bool \<Rightarrow> float64 option
     \<Rightarrow> bool \<Rightarrow> Side \<Rightarrow> Material \<Rightarrow> bool \<Rightarrow> bool \<Rightarrow> py_error + BatchedMeshesProps" where
  "new_BatchedMeshesProps batched_wxyzs batched_positions batched_scales lod
       vertices faces color wireframe opacity flat_shading side material cast_shadow receive_shadow =
     dataclass_new BatchedMeshesProps_post_init
       (BatchedMeshesProps batched_wxyzs batched_positions batched_scales lod
          vertices faces color wireframe opacity flat_shading side material cast_shadow receive_shadow)"

text \<open>
  \<^verbatim>\<open>BatchedAxesProps\<close>: \<^verbatim>\<open>batched_wxyzs\<close>, \<^verbatim>\<open>batched_positions\<close>, \<^verbatim>\<open>batched_scales\<close>,
  \<^verbatim>\<open>axes_length\<close>, \<^verbatim>\<open>axes_radius\<close>. The class has no \<^verbatim>\<open>__post_init__\<close> and no base
  class, so its constructor only stores the fields.
\<close>

datatype (plugins only: code) BatchedAxesProps =
  BatchedAxesProps ndarray ndarray "ndarray option" float64 float64

definition new_BatchedAxesProps ::
  "ndarray \<Rightarrow> ndarray \<Rightarrow> ndarray option \<Rightarrow> float64 \<Rightarrow> float64 \<Rightarrow> py_error + BatchedAxesProps" where
  "new_BatchedAxesProps batched_wxyzs batched_positions batched_scales axes_length axes_radius =
     Inr (BatchedAxesProps batched_wxyzs batched_positions batched_scales axes_length axes_radius)"

text \<open>
  A random source for the examples: it returns 0, 1, 2, ... in turn.
\<close>

definition counting_entropy :: entropy where
  "counting_entropy = (\<lambda>n. word_of_nat n)"

text \<open>An array of the given shape for the examples; the checks never read the buffer.\<close>

definition float_array :: "nat list \<Rightarrow> ndarray" where
  "float_array s = \<lparr>shape = s, dtype = Float32, data = []\<rparr>"

section \<open>The per-client outbox\<close>

text \<open>
  Modelled from the spec: the outbox is code of the repository's \<^verbatim>\<open>infra\<close> package,
  which is not among the sources; only the messages it carries are. Section 4.2 of the
  spec describes it as a buffer of messages in delivery order that is deduplicated by
  redundancy key. The buffer keeps each message with the key it was enqueued under.
  The terminal Closed state of section 4.2 is left out: nothing below closes an outbox.
\<close>

type_synonym outbox = "(string \<times> message) list"

text \<open>
  Modelled from the spec: "if an existing buffered message has the same redundancy key,
  it is replaced in place (value updated) while its position in delivery order is
  preserved as the position of the original entry"; a message with a new key is
  inserted at the end.
\<close>

fun coalesce :: "string \<Rightarrow> message \<Rightarrow> outbox \<Rightarrow> outbox" where
  "coalesce k m [] = [(k, m)]"
| "coalesce k m ((k', m') # buf) =
     (if k' = k then (k, m) # buf else (k', m') # coalesce k m buf)"

text \<open>
  Modelled from the spec: \<^verbatim>\<open>enqueue(message)\<close> of section 4.2. The key is the one
  \<^verbatim>\<open>redundancy_key\<close> of the source returns at this moment, so the random source is
  passed through.
\<close>

definition enqueue :: "message \<Rightarrow> outbox \<times> entropy \<Rightarrow> outbox \<times> entropy" where
  "enqueue m s =
     (case s of (buf, e) \<Rightarrow>
        case redundancy_key m e of (k, e') \<Rightarrow> (coalesce k m buf, e'))"

text \<open>
  Modelled from the spec: enqueueing a sequence of messages, first to last, with no
  flush in between.
\<close>

definition enqueue_all :: "message list \<Rightarrow> outbox \<times> entropy \<Rightarrow> outbox \<times> entropy" where
  "enqueue_all ms s = foldl (\<lambda>s m. enqueue m s) s ms"

text \<open>
  Modelled from the spec: \<^verbatim>\<open>flush()\<close> of section 4.2 "drains the buffer in insertion
  order (post-coalescing)": it returns the buffered messages in order and the emptied
  buffer.
\<close>

definition flush :: "outbox \<Rightarrow> message list \<times> outbox" where
  "flush buf = (map snd buf, [])"

section \<open>Facts about the string primitives\<close>

lemma append_sep_inj:
  "c \<notin> set x \<Longrightarrow> c \<notin> set y \<Longrightarrow> x @ c # r1 = y @ c # r2 \<Longrightarrow> x = y \<and> r1 = r2"
proof (induction x arbitrary: y)
  case Nil
  then show ?case by (cases y) auto
next
  case (Cons a x)
  then show ?case by (cases y) auto
qed

lemma append_sep_inj_right:
  assumes "c \<notin> set d1" "c \<notin> set d2" "u1 @ c # d1 = u2 @ c # d2"
  shows "u1 = u2 \<and> d1 = d2"
proof -
  from assms(3) have "rev (u1 @ c # d1) = rev (u2 @ c # d2)" by simp
  then have "rev d1 @ c # rev u1 = rev d2 @ c # rev u2" by simp
  with assms(1,2) have "rev d1 = rev d2 \<and> rev u1 = rev u2"
    by (intro append_sep_inj) auto
  then show ?thesis by simp
qed

lemma digit_char_code: "d < 10 \<Longrightarrow> of_char (digit_char d) = (48 + d :: nat)"
proof -
  assume "d < 10"
  then consider "d = 0" | "d = 1" | "d = 2" | "d = 3" | "d = 4" | "d = 5" | "d = 6"
    | "d = 7" | "d = 8" | "d = 9" by atomize_elim arith
  then show ?thesis by cases (simp_all add: digit_char_def)
qed

lemma digit_char_inj:
  assumes "a < 10" "b < 10" "digit_char a = digit_char b"
  shows "a = b"
proof -
  have "(of_char (digit_char a) :: nat) = of_char (digit_char b)"
    by (simp only: assms(3))
  then have "48 + a = 48 + b"
    by (simp only: digit_char_code [OF assms(1)] digit_char_code [OF assms(2)])
  then show ?thesis by simp
qed

lemma digit_char_not_minus:
  assumes "d < 10"
  shows "digit_char d \<noteq> CHR ''-''"
proof
  assume "digit_char d = CHR ''-''"
  then have "(of_char (digit_char d) :: nat) = of_char (CHR ''-'')" by (simp only:)
  then have "48 + d = (45 :: nat)" by (simp add: digit_char_code [OF assms])
  then show False by simp
qed

lemma str_nat_not_Nil: "str_nat n \<noteq> []"
  by (subst str_nat.simps) simp

lemma minus_notin_str_nat: "CHR ''-'' \<notin> set (str_nat n)"
proof (induction n rule: str_nat.induct)
  case (1 n)
  show ?case
  proof (cases "n < 10")
    case True
    then show ?thesis by (subst str_nat.simps) (simp add: digit_char_not_minus [symmetric])
  next
    case False
    with "1" show ?thesis by (subst str_nat.simps) (simp add: digit_char_not_minus [symmetric])
  qed
qed

lemma str_nat_inj: "str_nat n = str_nat m \<Longrightarrow> n = m"
proof (induction n arbitrary: m rule: str_nat.induct)
  case (1 n)
  show ?case
  proof (cases "n < 10")
    case n: True
    show ?thesis
    proof (cases "m < 10")
      case True
      with n "1.prems" show ?thesis
        by (simp add: str_nat.simps [of n] str_nat.simps [of m] digit_char_inj)
    next
      case False
      with n "1.prems" show ?thesis
        using str_nat_not_Nil [of "m div 10"]
        by (simp add: str_nat.simps [of n] str_nat.simps [of m])
    qed
  next
    case n: False
    show ?thesis
    proof (cases "m < 10")
      case True
      with n "1.prems" show ?thesis
        using str_nat_not_Nil [of "n div 10"]
        by (simp add: str_nat.simps [of n] str_nat.simps [of m])
    next
      case False
      with n "1.prems" have eq: "str_nat (n div 10) = str_nat (m div 10)"
        and d: "digit_char (n mod 10) = digit_char (m mod 10)"
        by (simp_all add: str_nat.simps [of n] str_nat.simps [of m])
      from "1.IH" [OF n eq] have "n div 10 = m div 10" .
      moreover from d have "n mod 10 = m mod 10" by (intro digit_char_inj) simp_all
      ultimately show ?thesis by (metis div_mult_mod_eq)
    qed
  qed
qed

lemma str_int_nonneg_inj: "0 \<le> i \<Longrightarrow> 0 \<le> j \<Longrightarrow> str_int i = str_int j \<Longrightarrow> i = j"
  by (auto simp: str_int_def dest!: str_nat_inj)

lemma minus_notin_str_int: "0 \<le> i \<Longrightarrow> CHR ''-'' \<notin> set (str_int i)"
  by (simp add: str_int_def minus_notin_str_nat)

lemma join_Cons: "join sep (x # xs) = (if xs = [] then x else x @ sep @ join sep xs)"
  by (cases xs) simp_all

lemma join_inj:
  assumes "\<forall>x\<in>set xs. x \<noteq> [] \<and> c \<notin> set x" "\<forall>y\<in>set ys. y \<noteq> [] \<and> c \<notin> set y"
    and "join [c] xs = join [c] ys"
  shows "xs = ys"
  using assms
proof (induction xs arbitrary: ys)
  case Nil
  then show ?case by (cases ys) (auto simp: join_Cons split: if_splits)
next
  case (Cons x xs)
  show ?case
  proof (cases ys)
    case Nil
    with Cons.prems show ?thesis by (auto simp: join_Cons split: if_splits)
  next
    case ys: (Cons y ys')
    show ?thesis
    proof (cases "xs = []")
      case True
      with Cons.prems ys show ?thesis by (auto simp: join_Cons split: if_splits)
    next
      case xs: False
      show ?thesis
      proof (cases "ys' = []")
        case True
        with Cons.prems ys xs show ?thesis by (auto simp: join_Cons split: if_splits)
      next
        case False
        with Cons.prems ys xs have eq: "x @ c # join [c] xs = y @ c # join [c] ys'"
          by (simp add: join_Cons)
        have "x = y \<and> join [c] xs = join [c] ys'"
          using Cons.prems(1,2) ys by (intro append_sep_inj [OF _ _ eq]) auto
        moreover from this Cons.prems ys have "xs = ys'"
          by (intro Cons.IH) auto
        ultimately show ?thesis using ys by simp
      qed
    qed
  qed
qed

lemma inherits_attrs:
  assumes "inherits_Message_redundancy_key m"
  shows "(name_attr m \<noteq> None \<longleftrightarrow> type_name m \<in> set [''SetOrientationMessage'', ''SetPositionMessage'',
            ''TransformControlsUpdateMessage'', ''TransformControlsDragStartMessage'',
            ''TransformControlsDragEndMessage'', ''SetSceneNodeVisibilityMessage'',
            ''SetSceneNodeClickableMessage'', ''SceneNodeClickMessage''])
       \<and> (uuid_attr m \<noteq> None \<longleftrightarrow> type_name m \<in> set [''NotificationMessage'', ''RemoveNotificationMessage''])
       \<and> (name_attr m = None \<or> uuid_attr m = None)"
  using assms by (cases m) simp_all

lemma inherits_key: "inherits_Message_redundancy_key m \<Longrightarrow> redundancy_key m e = (Message_redundancy_key m, e)"
  by (cases m) simp_all

section \<open>Facts about UUID strings\<close>

lemma hex_char_code:
  "d < 16 \<Longrightarrow> of_char (hex_char d) = (if d < 10 then 48 + d else 87 + d :: nat)"
proof -
  assume "d < 16"
  then consider "d = 0" | "d = 1" | "d = 2" | "d = 3" | "d = 4" | "d = 5" | "d = 6"
    | "d = 7" | "d = 8" | "d = 9" | "d = 10" | "d = 11" | "d = 12" | "d = 13" | "d = 14"
    | "d = 15" by atomize_elim arith
  then show ?thesis by cases (simp_all add: hex_char_def)
qed

lemma hex_char_inj:
  assumes "a < 16" "b < 16" "hex_char a = hex_char b"
  shows "a = b"
proof -
  have "(of_char (hex_char a) :: nat) = of_char (hex_char b)"
    by (simp only: assms(3))
  then have "(if a < 10 then 48 + a else 87 + a) = (if b < 10 then 48 + b else 87 + b)"
    by (simp only: hex_char_code [OF assms(1)] hex_char_code [OF assms(2)])
  then show ?thesis by (simp split: if_splits)
qed

lemma hex_char_mem: "d < 16 \<Longrightarrow> hex_char d \<in> set ''0123456789abcdef''"
  unfolding hex_char_def by (rule nth_mem) simp

lemma length_hex_digits: "length (hex_digits k n) = k"
  by (induction k arbitrary: n) simp_all

lemma set_hex_digits: "set (hex_digits k n) \<subseteq> set ''0123456789abcdef''"
proof (induction k arbitrary: n)
  case 0
  show ?case by simp
next
  case (Suc k)
  have "hex_char (n mod 16) \<in> set ''0123456789abcdef''" by (rule hex_char_mem) simp
  with Suc [of "n div 16"] show ?case by simp
qed

lemma hex_digits_inj:
  "n < 16 ^ k \<Longrightarrow> m < 16 ^ k \<Longrightarrow> hex_digits k n = hex_digits k m \<Longrightarrow> n = m"
proof (induction k arbitrary: n m)
  case 0
  then show ?case by simp
next
  case (Suc k)
  from Suc.prems(3) have eq: "hex_digits k (n div 16) = hex_digits k (m div 16)"
    and d: "hex_char (n mod 16) = hex_char (m mod 16)" by simp_all
  from Suc.prems(1,2) have "n div 16 < 16 ^ k" "m div 16 < 16 ^ k"
    by (simp_all add: less_mult_imp_div_less mult.commute)
  with eq have "n div 16 = m div 16" by (rule Suc.IH [rotated 2])
  moreover from d have "n mod 16 = m mod 16" by (intro hex_char_inj) simp_all
  ultimately show ?case by (metis div_mult_mod_eq)
qed

lemma str_uuid_head:
  "\<exists>a b r. str_uuid u = a # b # r \<and> a \<in> set ''0123456789abcdef'' \<and> b \<in> set ''0123456789abcdef''"
proof -
  define x where "x = hex_digits 32 (unat u)"
  have len: "length x = 32" by (simp add: x_def length_hex_digits)
  then obtain a b r where x: "x = a # b # r"
    by (cases x; cases "tl x") auto
  have "set x \<subseteq> set ''0123456789abcdef''" unfolding x_def by (rule set_hex_digits)
  with x have "a \<in> set ''0123456789abcdef''" "b \<in> set ''0123456789abcdef''" by auto
  moreover have "str_uuid u = a # b # (take 6 r @ ''-'' @ take 4 (drop 8 x) @ ''-'' @ take 4 (drop 12 x) @ ''-''
           @ take 4 (drop 16 x) @ ''-'' @ drop 20 x)"
    by (simp add: str_uuid_def x_def [symmetric] Let_def) (simp add: x)
  ultimately show ?thesis by blast
qed

lemma str_uuid_inj:
  assumes "str_uuid u = str_uuid v"
  shows "u = v"
proof -
  define x where "x = hex_digits 32 (unat u)"
  define y where "y = hex_digits 32 (unat v)"
  have len: "length x = 32" "length y = 32" by (simp_all add: x_def y_def length_hex_digits)
  from assms have "take 8 x @ CHR ''-'' # take 4 (drop 8 x) @ CHR ''-'' # take 4 (drop 12 x) @ CHR ''-''
           # take 4 (drop 16 x) @ CHR ''-'' # drop 20 x
      = take 8 y @ CHR ''-'' # take 4 (drop 8 y) @ CHR ''-'' # take 4 (drop 12 y) @ CHR ''-''
           # take 4 (drop 16 y) @ CHR ''-'' # drop 20 y"
    by (simp add: str_uuid_def x_def [symmetric] y_def [symmetric] Let_def)
  with len have parts: "take 8 x = take 8 y" "take 4 (drop 8 x) = take 4 (drop 8 y)"
    "take 4 (drop 12 x) = take 4 (drop 12 y)" "take 4 (drop 16 x) = take 4 (drop 16 y)"
    "drop 20 x = drop 20 y"
    by simp_all
  have split: "z = take 8 z @ take 4 (drop 8 z) @ take 4 (drop 12 z) @ take 4 (drop 16 z) @ drop 20 z"
    for z :: string
  proof -
    have "take 4 (drop 16 z) @ drop 20 z = drop 16 z"
      using append_take_drop_id [of 4 "drop 16 z"] by simp
    moreover have "take 4 (drop 12 z) @ drop 16 z = drop 12 z"
      using append_take_drop_id [of 4 "drop 12 z"] by simp
    moreover have "take 4 (drop 8 z) @ drop 12 z = drop 8 z"
      using append_take_drop_id [of 4 "drop 8 z"] by simp
    ultimately show ?thesis by simp
  qed
  have "x = y" by (subst split [of x], subst split [of y]) (simp only: parts)
  moreover have "unat u < 16 ^ 32" "unat v < 16 ^ 32"
    using unsigned_less [of u] unsigned_less [of v] by simp_all
  ultimately have "unat u = unat v"
    unfolding x_def y_def by (intro hex_digits_inj [of _ 32]) simp_all
  then show ?thesis by (simp add: word_unat_eq_iff)
qed


lemma uuid4_counting_0:
  "fst (uuid4 counting_entropy) = 0x00000000000040008000000000000000"
  by (simp add: counting_entropy_def uuid4_def os_urandom16_def)

lemma uuid4_counting_1:
  "fst (uuid4 (snd (uuid4 counting_entropy))) = 0x00000000000040008000000000000001"
  by (simp add: counting_entropy_def uuid4_def os_urandom16_def)



section \<open>Facts about redundancy keys\<close>



lemma pure_key_head:
  assumes "\<not> is_RunJavascriptMessage m" "fst (redundancy_key m e) = a # b # r"
  shows "a \<notin> set ''0123456789abcdef'' \<or> b \<notin> set ''0123456789abcdef''"
proof (cases m)
  case (CreateSceneNodeMessage c n p)
  with assms show ?thesis by auto
next
  case (CreateGuiComponentMessage c n p)
  with assms show ?thesis by auto
qed (use assms in \<open>auto simp: Message_redundancy_key_def\<close>)

lemma run_javascript_key_differs: "\<not> is_RunJavascriptMessage m \<Longrightarrow> fst (redundancy_key (RunJavascriptMessage s) e) \<noteq> fst (redundancy_key m e')"
proof
  assume m: "\<not> is_RunJavascriptMessage m"
    and eq: "fst (redundancy_key (RunJavascriptMessage s) e) = fst (redundancy_key m e')"
  obtain a b r where h: "str_uuid (fst (uuid4 e)) = a # b # r"
    "a \<in> set ''0123456789abcdef''" "b \<in> set ''0123456789abcdef''"
    using str_uuid_head by blast
  from eq h(1) have "fst (redundancy_key m e') = a # b # r"
    by (simp add: split_beta)
  from pure_key_head [OF m this] h(2,3) show False by blast
qed

lemma run_javascript_keys_equal_iff: "fst (redundancy_key (RunJavascriptMessage s1) e1) = fst (redundancy_key (RunJavascriptMessage s2) e2)
   \<longleftrightarrow> fst (uuid4 e1) = fst (uuid4 e2)"
  by (auto simp: split_beta dest: str_uuid_inj)

lemma render_response_key:
  "fst (redundancy_key m e) = ''GetRenderResponseMessage'' \<longleftrightarrow> (\<exists>p. m = GetRenderResponseMessage p)"
proof (cases m)
  case (RunJavascriptMessage s)
  obtain a b r where h: "str_uuid (fst (uuid4 e)) = a # b # r"
    "a \<in> set ''0123456789abcdef''" "b \<in> set ''0123456789abcdef''"
    using str_uuid_head by blast
  then have "str_uuid (fst (uuid4 e)) \<noteq> ''GetRenderResponseMessage''" by auto
  with RunJavascriptMessage show ?thesis by (simp add: split_beta)
qed (auto simp: Message_redundancy_key_def)

section \<open>Facts about the outbox\<close>

lemma coalesce_replaces:
  "k \<notin> fst ` set xs \<Longrightarrow> coalesce k m (xs @ (k, m0) # ys) = xs @ (k, m) # ys"
  by (induction xs) auto

section \<open>Facts about the shape checks\<close>

lemma then_do_Inr: "then_do r f = Inr v \<longleftrightarrow> (\<exists>x. r = Inr x \<and> f x = Inr v)"
  by (cases r) (simp_all add: then_do_def)

lemma py_assert_Inr: "py_assert b = Inr u \<longleftrightarrow> b"
  by (simp add: py_assert_def)

lemma tuple_get_0: "tuple_get t 0 = Inr x \<longleftrightarrow> (\<exists>r. t = x # r)"
  by (cases t) (auto simp: tuple_get_def)

lemma tuple_get_last: "tuple_get t (- 1) = Inr x \<longleftrightarrow> (t \<noteq> [] \<and> last t = x)"
proof (cases "t = []")
  case True
  then show ?thesis by (simp add: tuple_get_def)
next
  case False
  then have "nat (int (length t) - 1) = length t - 1" by simp
  with False show ?thesis by (auto simp: tuple_get_def last_conv_nth)
qed

lemma not_Inr_Inl: "(\<forall>v. r \<noteq> Inr v) \<Longrightarrow> \<exists>err. r = Inl err"
  by (cases r) auto

lemma point_cloud_ok:
  "new_PointCloudProps points colors point_size point_shape precision = Inr p
   \<Longrightarrow> \<exists>n. shape points = [n, 3] \<and> (shape colors = [3] \<or> shape colors = [n, 3])"
  by (auto simp: new_PointCloudProps_def dataclass_new_def then_do_Inr py_assert_Inr tuple_get_0
        tuple_get_last length_Suc_conv numeral_2_eq_2)

lemma skinned_ok:
  "new_SkinnedMeshProps vertices faces color wireframe opacity flat_shading side material
       cast_shadow receive_shadow bone_wxyzs bone_positions skin_indices skin_weights = Inr p
   \<Longrightarrow> (\<exists>b r r'. shape bone_wxyzs = b # r \<and> shape bone_positions = b # r')
     \<and> (\<exists>v r. shape vertices = v # r \<and> shape skin_indices = [v, 4] \<and> shape skin_weights = [v, 4])"
  by (auto simp: new_SkinnedMeshProps_def dataclass_new_def then_do_Inr py_assert_Inr tuple_get_0
        tuple_get_last split: if_splits)

lemma batched_glb_ok:
  "new_BatchedGlbProps batched_wxyzs batched_positions batched_scales lod glb_data scale
       cast_shadow receive_shadow = Inr p
   \<Longrightarrow> (\<exists>n r r'. shape batched_wxyzs = n # r \<and> shape batched_positions = n # r'
         \<and> (\<forall>s. batched_scales = Some s \<longrightarrow> shape s = [n] \<or> shape s = [n, 3]))"
  by (auto simp: new_BatchedGlbProps_def dataclass_new_def then_do_Inr py_assert_Inr tuple_get_0
        tuple_get_last split: option.splits)

text \<open>
  \<^verbatim>\<open>BatchedMeshesProps\<close> runs the \<^verbatim>\<open>__post_init__\<close> of \<^verbatim>\<open>MeshProps\<close> only, so the check
  that \<^verbatim>\<open>_BatchedMeshExtraProps\<close> makes on the batched arrays is never reached for it,
  although its sibling \<^verbatim>\<open>BatchedGlbProps\<close> runs it: two quaternions with five positions
  are accepted.
\<close>

lemma batched_meshes_props_skips_batch_check:
  "new_BatchedMeshesProps (float_array [2, 4]) (float_array [5, 3]) None LodAuto
     (float_array [1, 3]) (float_array [1, 3]) (0, 0, 0) False None False Front Standard False False
   = Inr (BatchedMeshesProps (float_array [2, 4]) (float_array [5, 3]) None LodAuto
     (float_array [1, 3]) (float_array [1, 3]) (0, 0, 0) False None False Front Standard False False)"
  by (simp add: new_BatchedMeshesProps_def dataclass_new_def then_do_def py_assert_def tuple_get_def float_array_def)

section \<open>C1: create and remove share a key\<close>

text \<open>
  C1, as stated, fails in its last part. The keys are equal, and a remove enqueued while
  the create is still buffered supersedes the create; but the remove message itself
  stays in the buffer and is delivered. In the outbox of section 4.2, creating and then
  removing the node "robot" before any flush leaves exactly the remove message to be
  flushed.
\<close>

theorem remove_is_delivered_counterexample:
  "fst (flush (fst (enqueue_all [CreateSceneNodeMessage FrameMessage ''robot'' (PyDict []),
                                  RemoveSceneNodeMessage ''robot''] ([], counting_entropy))))
     = [RemoveSceneNodeMessage ''robot'']
   \<and> RemoveSceneNodeMessage ''robot''
       \<in> set (fst (flush (fst (enqueue_all [CreateSceneNodeMessage FrameMessage ''robot'' (PyDict []),
                                  RemoveSceneNodeMessage ''robot''] ([], counting_entropy)))))"
  by (simp add: enqueue_all_def enqueue_def flush_def)

text \<open>
  C1, amended. For every scene-node name \<open>n\<close> the create message of any node class and
  the remove message for \<open>n\<close> have the same redundancy key, and for every GUI element
  UUID \<open>u\<close> the create message of any component class and the remove message for \<open>u\<close>
  have the same key. Hence, in the outbox of section 4.2, a remove enqueued while the
  create is still buffered supersedes it: after create then remove, the flushed output is
  the remove message alone, and with other messages buffered around the create, the
  flushed output holds those messages and the remove, whatever their order. The create
  does not reach the client; the remove does.
\<close>

theorem create_remove_share_key:
  "fst (redundancy_key (CreateSceneNodeMessage c n props) e) = fst (redundancy_key (RemoveSceneNodeMessage n) e')
   \<and> fst (redundancy_key (CreateGuiComponentMessage g u rest) e) = fst (redundancy_key (GuiRemoveMessage u) e')
   \<and> fst (flush (fst (enqueue_all [CreateSceneNodeMessage c n props, RemoveSceneNodeMessage n] ([], e))))
       = [RemoveSceneNodeMessage n]
   \<and> fst (flush (fst (enqueue_all [CreateGuiComponentMessage g u rest, GuiRemoveMessage u] ([], e))))
       = [GuiRemoveMessage u]
   \<and> (fst (redundancy_key (RemoveSceneNodeMessage n) e) \<notin> fst ` set xs \<longrightarrow>
        set (fst (flush (fst (enqueue (RemoveSceneNodeMessage n)
          (xs @ (fst (redundancy_key (CreateSceneNodeMessage c n props) e'), CreateSceneNodeMessage c n props) # ys, e)))))
        = insert (RemoveSceneNodeMessage n) (snd ` set xs \<union> snd ` set ys))
   \<and> (fst (redundancy_key (GuiRemoveMessage u) e) \<notin> fst ` set xs \<longrightarrow>
        set (fst (flush (fst (enqueue (GuiRemoveMessage u)
          (xs @ (fst (redundancy_key (CreateGuiComponentMessage g u rest) e'), CreateGuiComponentMessage g u rest) # ys, e)))))
        = insert (GuiRemoveMessage u) (snd ` set xs \<union> snd ` set ys))"
  by (simp add: enqueue_all_def enqueue_def flush_def coalesce_replaces Un_commute insert_commute)

text \<open>
  The theorem at the node "robot", with a position update buffered before its create and
  an orientation update after it, and at the button "b1" with a GUI reset buffered after
  its create.
\<close>

theorem create_remove_share_key_witness:
  "set (fst (flush (fst (enqueue (RemoveSceneNodeMessage ''robot'')
     ([(''SetPositionMessage_robot'', SetPositionMessage ''robot'' (0, 0, 0)),
       (''create-or-remove-scene-robot'', CreateSceneNodeMessage FrameMessage ''robot'' (PyDict [])),
       (''SetOrientationMessage_robot'', SetOrientationMessage ''robot'' (0, 0, 0, 0))],
      counting_entropy)))))
   = {RemoveSceneNodeMessage ''robot'', SetPositionMessage ''robot'' (0, 0, 0),
      SetOrientationMessage ''robot'' (0, 0, 0, 0)}
   \<and> set (fst (flush (fst (enqueue (GuiRemoveMessage ''b1'')
     ([(''create-or-remove-gui-b1'', CreateGuiComponentMessage GuiButtonMessage ''b1'' []),
       (''ResetGuiMessage'', ResetGuiMessage)],
      counting_entropy)))))
   = {GuiRemoveMessage ''b1'', ResetGuiMessage}"
  using create_remove_share_key [where n = "''robot''" and c = FrameMessage and props = "PyDict []" and e = counting_entropy
      and e' = counting_entropy and u = "''b1''" and g = GuiButtonMessage and rest = "[]"
      and xs = "[(''SetPositionMessage_robot'', SetPositionMessage ''robot'' (0, 0, 0))]"
      and ys = "[(''SetOrientationMessage_robot'', SetOrientationMessage ''robot'' (0, 0, 0, 0))]"]
    create_remove_share_key [where n = "''robot''" and c = FrameMessage and props = "PyDict []" and e = counting_entropy
      and e' = counting_entropy and u = "''b1''" and g = GuiButtonMessage and rest = "[]"
      and xs = "[]" and ys = "[(''ResetGuiMessage'', ResetGuiMessage)]"]
  by (simp add: insert_commute)

section \<open>C2: property updates\<close>

text \<open>
  C2, as the spec states it, fails: the changed property names enter the key in the
  dictionary's insertion order, not sorted, so two updates of the same target that
  change the same set of properties, written in a different order, have different keys.
\<close>

theorem update_key_order_counterexample:
  "set (map fst [(''a'', PyInt 1), (''b'', PyInt 2)]) = set (map fst [(''b'', PyInt 2), (''a'', PyInt 1)])
   \<and> fst (redundancy_key (GuiUpdateMessage ''u'' [(''b'', PyInt 2), (''a'', PyInt 1)]) counting_entropy)
       = ''GuiUpdateMessage-u-b,a''
   \<and> fst (redundancy_key (GuiUpdateMessage ''u'' [(''a'', PyInt 1), (''b'', PyInt 2)]) counting_entropy)
       \<noteq> fst (redundancy_key (GuiUpdateMessage ''u'' [(''b'', PyInt 2), (''a'', PyInt 1)]) counting_entropy)
   \<and> fst (redundancy_key (SceneNodeUpdateMessage ''n'' [(''a'', PyInt 1), (''b'', PyInt 2)]) counting_entropy)
       \<noteq> fst (redundancy_key (SceneNodeUpdateMessage ''n'' [(''b'', PyInt 2), (''a'', PyInt 1)]) counting_entropy)"
  by (simp add: insert_commute)

text \<open>
  C2, amended. The redundancy key of a property update (\<^verbatim>\<open>GuiUpdateMessage\<close> by UUID,
  \<^verbatim>\<open>SceneNodeUpdateMessage\<close> by name) is the class name, the target and the changed
  property names in the dictionary's insertion order, joined by commas. For two updates
  of the same target whose property names are non-empty and contain no comma, the keys
  are equal if and only if the sequences of property names are equal.
\<close>

theorem update_key_iff:
  assumes "\<forall>n \<in> set (map fst ups1) \<union> set (map fst ups2). n \<noteq> [] \<and> CHR '','' \<notin> set n"
  shows "(fst (redundancy_key (GuiUpdateMessage t ups1) e1) = fst (redundancy_key (GuiUpdateMessage t ups2) e2)
           \<longleftrightarrow> map fst ups1 = map fst ups2)
       \<and> (fst (redundancy_key (SceneNodeUpdateMessage t ups1) e1) = fst (redundancy_key (SceneNodeUpdateMessage t ups2) e2)
           \<longleftrightarrow> map fst ups1 = map fst ups2)
       \<and> fst (redundancy_key (GuiUpdateMessage t ups1) e1) = ''GuiUpdateMessage-'' @ t @ ''-'' @ join '','' (map fst ups1)
       \<and> fst (redundancy_key (SceneNodeUpdateMessage t ups1) e1) = ''SceneNodeUpdateMessage-'' @ t @ ''-'' @ join '','' (map fst ups1)"
proof -
  have "join '','' (map fst ups1) = join '','' (map fst ups2) \<longleftrightarrow> map fst ups1 = map fst ups2"
    using join_inj [of "map fst ups1" "CHR '',''" "map fst ups2"] assms by auto
  then show ?thesis by simp
qed

text \<open>
  The theorem at two updates of the fields \<open>a, b\<close> of one element (equal keys), and at
  updates of \<open>a\<close> and of \<open>b\<close> of one node (different keys).
\<close>

theorem update_key_iff_witness:
  "fst (redundancy_key (GuiUpdateMessage ''u'' [(''a'', PyInt 1), (''b'', PyInt 2)]) counting_entropy)
     = fst (redundancy_key (GuiUpdateMessage ''u'' [(''a'', PyInt 3), (''b'', PyInt 4)]) counting_entropy)
   \<and> fst (redundancy_key (SceneNodeUpdateMessage ''u'' [(''a'', PyInt 1)]) counting_entropy)
     \<noteq> fst (redundancy_key (SceneNodeUpdateMessage ''u'' [(''b'', PyInt 4)]) counting_entropy)"
  using update_key_iff [of "[(''a'', PyInt 1), (''b'', PyInt 2)]" "[(''a'', PyInt 3), (''b'', PyInt 4)]"
      "''u''" counting_entropy counting_entropy]
    update_key_iff [of "[(''a'', PyInt 1)]" "[(''b'', PyInt 4)]" "''u''" counting_entropy counting_entropy]
  by simp

section \<open>C3: purity of the key\<close>




section \<open>C4: messages without identity\<close>

text \<open>
  C4, as stated, fails for \<^verbatim>\<open>GetRenderResponseMessage\<close>: the class has no \<^verbatim>\<open>name\<close> and no
  \<^verbatim>\<open>uuid\<close> and inherits the key of \<^verbatim>\<open>Message\<close>, which is its class name. Two render
  responses with different payloads have the same key.
\<close>

theorem render_response_keys_collide_counterexample:
  "GetRenderResponseMessage [1] \<noteq> GetRenderResponseMessage [2]
   \<and> fst (redundancy_key (GetRenderResponseMessage [1]) counting_entropy)
       = fst (redundancy_key (GetRenderResponseMessage [2]) counting_entropy)"
  by (simp add: Message_redundancy_key_def)

text \<open>
  C4, amended. The key of a \<^verbatim>\<open>RunJavascriptMessage\<close> never equals the key of a message of
  any other class, and two such keys are equal only when the random source returned the
  same UUID for both. The key of a \<^verbatim>\<open>GetRenderResponseMessage\<close> is the class name: it
  equals the key of every other message of its class and of no message of another
  class.
\<close>

theorem identityless_key_collisions:
  "(\<not> is_RunJavascriptMessage m \<longrightarrow>
      fst (redundancy_key (RunJavascriptMessage s) e) \<noteq> fst (redundancy_key m e'))
   \<and> (fst (redundancy_key (RunJavascriptMessage s1) e1) = fst (redundancy_key (RunJavascriptMessage s2) e2)
        \<longleftrightarrow> fst (uuid4 e1) = fst (uuid4 e2))
   \<and> (fst (redundancy_key m e') = fst (redundancy_key (GetRenderResponseMessage p) e)
        \<longleftrightarrow> (\<exists>p'. m = GetRenderResponseMessage p'))"
proof -
  have "fst (redundancy_key (GetRenderResponseMessage p) e) = ''GetRenderResponseMessage''"
    by (simp add: Message_redundancy_key_def)
  then show ?thesis
    using run_javascript_key_differs [of m s e e'] run_javascript_keys_equal_iff [of s1 e1 s2 e2] render_response_key [of m e'] by simp
qed

text \<open>
  The theorem at a script message against a render response, and at two script messages
  keyed one after the other from a source that returns 0 and then 1.
\<close>

theorem identityless_key_collisions_witness:
  "fst (redundancy_key (RunJavascriptMessage ''x'') counting_entropy)
     \<noteq> fst (redundancy_key (GetRenderResponseMessage [1]) counting_entropy)
   \<and> fst (redundancy_key (RunJavascriptMessage ''x'') counting_entropy)
     \<noteq> fst (redundancy_key (RunJavascriptMessage ''x'') (snd (uuid4 counting_entropy)))"
  using identityless_key_collisions [of "GetRenderResponseMessage [1]" "''x''" counting_entropy counting_entropy
      "''x''" counting_entropy "''x''" "snd (uuid4 counting_entropy)" "[1]"]
    uuid4_counting_0 uuid4_counting_1
  by simp

section \<open>C5: create, three position updates, remove\<close>

text \<open>
  C5, as stated, fails. The key of a position update for "robot" is
  \<open>SetPositionMessage_robot\<close>, the key of the create and of the remove is
  \<open>create-or-remove-scene-robot\<close>: no later message supersedes the last position update.
  In the outbox of section 4.2 the flushed output of the scenario is not empty: a
  position update is in it. (1.0 is the bit pattern \<open>0x3FF0000000000000\<close>.)
\<close>

theorem robot_scenario_flush_not_empty_counterexample:
  "fst (flush (fst (enqueue_all
      [CreateSceneNodeMessage FrameMessage ''robot'' (PyDict []),
       SetPositionMessage ''robot'' (0x3FF0000000000000, 0, 0),
       SetPositionMessage ''robot'' (0x3FF0000000000000, 0, 0),
       SetPositionMessage ''robot'' (0x3FF0000000000000, 0, 0),
       RemoveSceneNodeMessage ''robot''] ([], counting_entropy)))) \<noteq> []
   \<and> SetPositionMessage ''robot'' (0x3FF0000000000000, 0, 0)
       \<in> set (fst (flush (fst (enqueue_all
      [CreateSceneNodeMessage FrameMessage ''robot'' (PyDict []),
       SetPositionMessage ''robot'' (0x3FF0000000000000, 0, 0),
       SetPositionMessage ''robot'' (0x3FF0000000000000, 0, 0),
       SetPositionMessage ''robot'' (0x3FF0000000000000, 0, 0),
       RemoveSceneNodeMessage ''robot''] ([], counting_entropy)))))
   \<and> fst (redundancy_key (SetPositionMessage ''robot'' (0x3FF0000000000000, 0, 0)) counting_entropy)
       \<noteq> fst (redundancy_key (RemoveSceneNodeMessage ''robot'') counting_entropy)"
  by (simp add: enqueue_all_def enqueue_def flush_def Message_redundancy_key_def)

text \<open>
  C5, amended. In the scenario where, before any flush, a node is created, its position
  is updated three times and the node is then removed, the flushed output is not empty:
  it consists of two messages, the remove message and one position update carrying the
  last position (nothing is said about their order). The three updates coalesce with
  each other, and their key differs from the key that create and remove share. This
  holds for position updates sent as \<^verbatim>\<open>SetPositionMessage\<close> and as
  \<^verbatim>\<open>SceneNodeUpdateMessage\<close> of the property \<open>position\<close>.
\<close>

theorem robot_scenario_flush:
  "set (fst (flush (fst (enqueue_all
      [CreateSceneNodeMessage c n props, SetPositionMessage n p1, SetPositionMessage n p2,
       SetPositionMessage n p3, RemoveSceneNodeMessage n] ([], e)))))
     = {RemoveSceneNodeMessage n, SetPositionMessage n p3}
   \<and> length (fst (flush (fst (enqueue_all
      [CreateSceneNodeMessage c n props, SetPositionMessage n p1, SetPositionMessage n p2,
       SetPositionMessage n p3, RemoveSceneNodeMessage n] ([], e))))) = 2
   \<and> set (fst (flush (fst (enqueue_all
      [CreateSceneNodeMessage c n props, SceneNodeUpdateMessage n [(''position'', v1)],
       SceneNodeUpdateMessage n [(''position'', v2)], SceneNodeUpdateMessage n [(''position'', v3)],
       RemoveSceneNodeMessage n] ([], e)))))
     = {RemoveSceneNodeMessage n, SceneNodeUpdateMessage n [(''position'', v3)]}
   \<and> length (fst (flush (fst (enqueue_all
      [CreateSceneNodeMessage c n props, SceneNodeUpdateMessage n [(''position'', v1)],
       SceneNodeUpdateMessage n [(''position'', v2)], SceneNodeUpdateMessage n [(''position'', v3)],
       RemoveSceneNodeMessage n] ([], e))))) = 2
   \<and> fst (redundancy_key (SetPositionMessage n p1) e) \<noteq> fst (redundancy_key (RemoveSceneNodeMessage n) e')
   \<and> fst (redundancy_key (SceneNodeUpdateMessage n [(''position'', v1)]) e)
       \<noteq> fst (redundancy_key (RemoveSceneNodeMessage n) e')"
  by (simp add: enqueue_all_def enqueue_def flush_def Message_redundancy_key_def)

section \<open>C6: shape checks at construction\<close>

text \<open>
  C6, as stated for every variant with paired arrays, fails for \<^verbatim>\<open>BatchedAxesProps\<close>:
  the class has no \<^verbatim>\<open>__post_init__\<close>, so two quaternions with three positions are
  accepted by its constructor.
\<close>

theorem batched_axes_mismatch_counterexample:
  "new_BatchedAxesProps (float_array [2, 4]) (float_array [3, 3]) None 0 0
     = Inr (BatchedAxesProps (float_array [2, 4]) (float_array [3, 3]) None 0 0)"
  by (simp add: new_BatchedAxesProps_def)

text \<open>
  C6, amended. Where the property bag checks its shapes in \<^verbatim>\<open>__post_init__\<close>, a mismatch
  between paired arrays makes the constructor raise, so no object is built:
  \<^item> \<^verbatim>\<open>PointCloudProps\<close>: \<^verbatim>\<open>colors\<close> whose shape is neither \<open>(3,)\<close> nor \<open>(N, 3)\<close> for the
    \<open>N\<close> points;
  \<^item> \<^verbatim>\<open>SkinnedMeshProps\<close>: different numbers of bone orientations and bone positions,
    or skin indices or weights whose shape is not \<open>(V, 4)\<close> for the \<open>V\<close> vertices;
  \<^item> \<^verbatim>\<open>BatchedGlbProps\<close>: different numbers of batched quaternions and batched positions,
    or scales whose shape is neither \<open>(N,)\<close> nor \<open>(N, 3)\<close>.
  \<^verbatim>\<open>BatchedAxesProps\<close> makes no check: its constructor returns the object for any
  arrays.
\<close>

theorem shape_checks_at_construction:
  "(shape points = n # r \<and> shape colors \<noteq> [3] \<and> shape colors \<noteq> [n, 3] \<longrightarrow>
      (\<exists>err. new_PointCloudProps points colors point_size point_shape precision = Inl err))
   \<and> (shape bone_wxyzs = b # rw \<and> shape bone_positions = b' # rb \<and> b \<noteq> b' \<longrightarrow>
      (\<exists>err. new_SkinnedMeshProps vertices faces color wireframe opacity flat_shading side material
         cast_shadow receive_shadow bone_wxyzs bone_positions skin_indices skin_weights = Inl err))
   \<and> (shape vertices = v # rv \<and> (shape skin_indices \<noteq> [v, 4] \<or> shape skin_weights \<noteq> [v, 4]) \<longrightarrow>
      (\<exists>err. new_SkinnedMeshProps vertices faces color wireframe opacity flat_shading side material
         cast_shadow receive_shadow bone_wxyzs bone_positions skin_indices skin_weights = Inl err))
   \<and> (shape batched_wxyzs = k # rq \<and> shape batched_positions = k' # rt \<and> k \<noteq> k' \<longrightarrow>
      (\<exists>err. new_BatchedGlbProps batched_wxyzs batched_positions batched_scales lod glb_data scale
         cast_shadow' receive_shadow' = Inl err))
   \<and> (shape batched_wxyzs = k # rq \<and> batched_scales = Some s \<and> shape s \<noteq> [k] \<and> shape s \<noteq> [k, 3] \<longrightarrow>
      (\<exists>err. new_BatchedGlbProps batched_wxyzs batched_positions batched_scales lod glb_data scale
         cast_shadow' receive_shadow' = Inl err))
   \<and> new_BatchedAxesProps axes_wxyzs axes_positions axes_scales axes_length axes_radius
       = Inr (BatchedAxesProps axes_wxyzs axes_positions axes_scales axes_length axes_radius)"
proof -
  have pc: "shape points = n # r \<and> shape colors \<noteq> [3] \<and> shape colors \<noteq> [n, 3] \<longrightarrow>
      (\<exists>err. new_PointCloudProps points colors point_size point_shape precision = Inl err)"
    using point_cloud_ok [of points colors point_size point_shape precision]
    by (intro impI not_Inr_Inl) auto
  have bones: "shape bone_wxyzs = b # rw \<and> shape bone_positions = b' # rb \<and> b \<noteq> b' \<longrightarrow>
      (\<exists>err. new_SkinnedMeshProps vertices faces color wireframe opacity flat_shading side material
         cast_shadow receive_shadow bone_wxyzs bone_positions skin_indices skin_weights = Inl err)"
    using skinned_ok [of vertices faces color wireframe opacity flat_shading side material
         cast_shadow receive_shadow bone_wxyzs bone_positions skin_indices skin_weights]
    by (intro impI not_Inr_Inl) auto
  have skin: "shape vertices = v # rv \<and> (shape skin_indices \<noteq> [v, 4] \<or> shape skin_weights \<noteq> [v, 4]) \<longrightarrow>
      (\<exists>err. new_SkinnedMeshProps vertices faces color wireframe opacity flat_shading side material
         cast_shadow receive_shadow bone_wxyzs bone_positions skin_indices skin_weights = Inl err)"
    using skinned_ok [of vertices faces color wireframe opacity flat_shading side material
         cast_shadow receive_shadow bone_wxyzs bone_positions skin_indices skin_weights]
    by (intro impI not_Inr_Inl) auto
  have glb: "shape batched_wxyzs = k # rq \<and> shape batched_positions = k' # rt \<and> k \<noteq> k' \<longrightarrow>
      (\<exists>err. new_BatchedGlbProps batched_wxyzs batched_positions batched_scales lod glb_data scale
         cast_shadow' receive_shadow' = Inl err)"
    using batched_glb_ok [of batched_wxyzs batched_positions batched_scales lod glb_data scale
         cast_shadow' receive_shadow']
    by (intro impI not_Inr_Inl) auto
  have scales: "shape batched_wxyzs = k # rq \<and> batched_scales = Some s \<and> shape s \<noteq> [k] \<and> shape s \<noteq> [k, 3] \<longrightarrow>
      (\<exists>err. new_BatchedGlbProps batched_wxyzs batched_positions batched_scales lod glb_data scale
         cast_shadow' receive_shadow' = Inl err)"
    using batched_glb_ok [of batched_wxyzs batched_positions batched_scales lod glb_data scale
         cast_shadow' receive_shadow']
    by (intro impI not_Inr_Inl) auto
  have axes: "new_BatchedAxesProps axes_wxyzs axes_positions axes_scales axes_length axes_radius
       = Inr (BatchedAxesProps axes_wxyzs axes_positions axes_scales axes_length axes_radius)"
    by (simp add: new_BatchedAxesProps_def)
  from pc bones skin glb scales axes show ?thesis by blast
qed

text \<open>
  The theorem at five points with four colours, at two bone orientations with three bone
  positions, at seven skin index rows for eight vertices, at two batched quaternions
  with three positions, and at five scales for two quaternions: each constructor raises
  \<^verbatim>\<open>AssertionError\<close>.
\<close>

theorem shape_checks_at_construction_witness:
  "new_PointCloudProps (float_array [5, 3]) \<lparr>shape = [4, 3], dtype = UInt8, data = []\<rparr> 0 Circle
       PrecisionFloat32 = Inl AssertionError
   \<and> new_SkinnedMeshProps (float_array [8, 3]) (float_array [4, 3]) (0, 0, 0) False None False Front
       Standard False False (float_array [2, 4]) (float_array [3, 3]) (float_array [8, 4])
       (float_array [8, 4]) = Inl AssertionError
   \<and> new_SkinnedMeshProps (float_array [8, 3]) (float_array [4, 3]) (0, 0, 0) False None False Front
       Standard False False (float_array [2, 4]) (float_array [2, 3]) (float_array [7, 4])
       (float_array [8, 4]) = Inl AssertionError
   \<and> new_BatchedGlbProps (float_array [2, 4]) (float_array [3, 3]) None LodAuto [] 0 False False
       = Inl AssertionError
   \<and> new_BatchedGlbProps (float_array [2, 4]) (float_array [2, 3]) (Some (float_array [5])) LodAuto [] 0
       False False = Inl AssertionError"
  using shape_checks_at_construction [where points = "float_array [5, 3]" and n = 5 and r = "[3]"
      and colors = "\<lparr>shape = [4, 3], dtype = UInt8, data = []\<rparr>"
      and point_size = 0 and point_shape = Circle and precision = PrecisionFloat32
      and vertices = "float_array [8, 3]" and faces = "float_array [4, 3]" and color = "(0, 0, 0)"
      and wireframe = False and opacity = None and flat_shading = False and side = Front
      and material = Standard and cast_shadow = False and receive_shadow = False
      and bone_wxyzs = "float_array [2, 4]" and bone_positions = "float_array [3, 3]"
      and b = 2 and rw = "[4]" and b' = 3 and rb = "[3]"
      and skin_indices = "float_array [8, 4]" and skin_weights = "float_array [8, 4]"
      and batched_wxyzs = "float_array [2, 4]" and batched_positions = "float_array [3, 3]"
      and k = 2 and rq = "[4]" and k' = 3 and rt = "[3]" and batched_scales = None and lod = LodAuto
      and glb_data = "[]" and scale = 0 and cast_shadow' = False and receive_shadow' = False]
    shape_checks_at_construction [where vertices = "float_array [8, 3]" and faces = "float_array [4, 3]" and color = "(0, 0, 0)"
      and wireframe = False and opacity = None and flat_shading = False and side = Front
      and material = Standard and cast_shadow = False and receive_shadow = False
      and bone_wxyzs = "float_array [2, 4]" and bone_positions = "float_array [2, 3]"
      and v = 8 and rv = "[3]"
      and skin_indices = "float_array [7, 4]" and skin_weights = "float_array [8, 4]"
      and batched_wxyzs = "float_array [2, 4]" and batched_positions = "float_array [2, 3]"
      and k = 2 and rq = "[4]" and batched_scales = "Some (float_array [5])" and s = "float_array [5]"
      and lod = LodAuto
      and glb_data = "[]" and scale = 0 and cast_shadow' = False and receive_shadow' = False]
  by (simp add: float_array_def new_PointCloudProps_def new_SkinnedMeshProps_def new_BatchedGlbProps_def
        dataclass_new_def then_do_def py_assert_def tuple_get_def)

section \<open>C7: the inherited key\<close>

text \<open>
  C7. For messages of a class that inherits \<^verbatim>\<open>Message.redundancy_key\<close>: without a
  \<^verbatim>\<open>name\<close> and a \<^verbatim>\<open>uuid\<close> field the key is exactly the class name; with such a field,
  the key is the class name, an underscore and the field; and two messages of the same
  class have equal keys if and only if their identifying fields are equal.
\<close>

theorem inherited_key_is_kind_and_identity:
  assumes "inherits_Message_redundancy_key m1" "inherits_Message_redundancy_key m2"
  shows "(name_attr m1 = None \<and> uuid_attr m1 = None \<longrightarrow> fst (redundancy_key m1 e1) = type_name m1)
       \<and> (\<forall>x. name_attr m1 = Some x \<or> uuid_attr m1 = Some x \<longrightarrow> fst (redundancy_key m1 e1) = type_name m1 @ ''_'' @ x)
       \<and> (type_name m1 = type_name m2 \<longrightarrow>
            (fst (redundancy_key m1 e1) = fst (redundancy_key m2 e2)
              \<longleftrightarrow> name_attr m1 = name_attr m2 \<and> uuid_attr m1 = uuid_attr m2))"
proof -
  note a1 = inherits_attrs [OF assms(1)] and a2 = inherits_attrs [OF assms(2)]
  have k1: "fst (redundancy_key m1 e1) = Message_redundancy_key m1"
    and k2: "fst (redundancy_key m2 e2) = Message_redundancy_key m2"
    using assms by (simp_all add: inherits_key)
  have p1: "name_attr m1 = None \<and> uuid_attr m1 = None \<longrightarrow> fst (redundancy_key m1 e1) = type_name m1"
    by (simp add: k1 Message_redundancy_key_def)
  have p2: "\<forall>x. name_attr m1 = Some x \<or> uuid_attr m1 = Some x \<longrightarrow> fst (redundancy_key m1 e1) = type_name m1 @ ''_'' @ x"
    using a1 by (auto simp: k1 Message_redundancy_key_def)
  have p3: "type_name m1 = type_name m2 \<longrightarrow>
            (fst (redundancy_key m1 e1) = fst (redundancy_key m2 e2)
              \<longleftrightarrow> name_attr m1 = name_attr m2 \<and> uuid_attr m1 = uuid_attr m2)"
  proof
    assume t: "type_name m1 = type_name m2"
    from a1 a2 t have same: "(name_attr m1 = None \<longleftrightarrow> name_attr m2 = None)"
      "(uuid_attr m1 = None \<longleftrightarrow> uuid_attr m2 = None)" by metis+
    show "fst (redundancy_key m1 e1) = fst (redundancy_key m2 e2)
              \<longleftrightarrow> name_attr m1 = name_attr m2 \<and> uuid_attr m1 = uuid_attr m2"
      using same a1 a2 t
      by (cases "name_attr m1"; cases "uuid_attr m1"; cases "name_attr m2"; cases "uuid_attr m2")
         (simp_all add: k1 k2 Message_redundancy_key_def)
  qed
  from p1 p2 p3 show ?thesis by blast
qed

text \<open>
  The theorem at \<^verbatim>\<open>ResetGuiMessage\<close>, at two position updates for "robot" and at the
  removal of two different notifications.
\<close>

theorem inherited_key_is_kind_and_identity_witness:
  "fst (redundancy_key ResetGuiMessage counting_entropy) = ''ResetGuiMessage''
   \<and> fst (redundancy_key (SetPositionMessage ''robot'' (0, 0, 0)) counting_entropy)
       = ''SetPositionMessage_robot''
   \<and> fst (redundancy_key (SetPositionMessage ''robot'' (0, 0, 0)) counting_entropy)
       = fst (redundancy_key (SetPositionMessage ''robot'' (1, 1, 1)) counting_entropy)
   \<and> fst (redundancy_key (RemoveNotificationMessage ''a'') counting_entropy)
       \<noteq> fst (redundancy_key (RemoveNotificationMessage ''b'') counting_entropy)"
  using inherited_key_is_kind_and_identity [of ResetGuiMessage ResetGuiMessage counting_entropy counting_entropy]
    inherited_key_is_kind_and_identity [of "SetPositionMessage ''robot'' (0, 0, 0)"
      "SetPositionMessage ''robot'' (1, 1, 1)" counting_entropy counting_entropy]
    inherited_key_is_kind_and_identity [of "RemoveNotificationMessage ''a''"
      "RemoveNotificationMessage ''b''" counting_entropy counting_entropy]
  by (simp add: Message_redundancy_key_def)

section \<open>C8: file transfer parts\<close>

text \<open>
  C8. For any two \<^verbatim>\<open>FileTransferPart\<close> messages whose \<^verbatim>\<open>part_index\<close> values are
  non-negative, the redundancy keys are equal if and only if both the
  \<^verbatim>\<open>transfer_uuid\<close> and the \<^verbatim>\<open>part_index\<close> are equal. The \<^verbatim>\<open>transfer_uuid\<close> may be
  any string, dashes and digits included; the other fields and the state of the random
  source play no role.
\<close>

theorem file_transfer_part_key_iff: "0 \<le> i1 \<Longrightarrow> 0 \<le> i2 \<Longrightarrow>
   fst (redundancy_key (FileTransferPart s1 u1 i1 c1) e1) = fst (redundancy_key (FileTransferPart s2 u2 i2 c2) e2)
   \<longleftrightarrow> u1 = u2 \<and> i1 = i2"
proof -
  assume nn: "0 \<le> i1" "0 \<le> i2"
  have "u1 @ CHR ''-'' # str_int i1 = u2 @ CHR ''-'' # str_int i2 \<longleftrightarrow> u1 = u2 \<and> i1 = i2"
    using append_sep_inj_right [of "CHR ''-''" "str_int i1" "str_int i2" u1 u2]
      minus_notin_str_int nn str_int_nonneg_inj by blast
  then show ?thesis by simp
qed

text \<open>
  The theorem at parts 0 and 1 of one transfer (different keys), and at part 1 sent
  twice with different content (equal keys).
\<close>

theorem file_transfer_part_key_iff_witness:
  "fst (redundancy_key (FileTransferPart None ''t'' 0 []) counting_entropy)
     \<noteq> fst (redundancy_key (FileTransferPart None ''t'' 1 []) counting_entropy)
   \<and> fst (redundancy_key (FileTransferPart None ''t'' 1 [1]) counting_entropy)
     = fst (redundancy_key (FileTransferPart (Some ''c'') ''t'' 1 [2]) counting_entropy)"
  using file_transfer_part_key_iff [of 0 1 None "''t''" "[]" counting_entropy None "''t''" "[]" counting_entropy]
    file_transfer_part_key_iff [of 1 1 None "''t''" "[1]" counting_entropy "Some ''c''" "''t''" "[2]" counting_entropy]
  by simp

section \<open>C9: modal open and close share a key\<close>

text \<open>
  C9. For every modal UUID \<open>u\<close>, the open-modal message (\<^verbatim>\<open>GuiModalMessage\<close>) and the
  close-modal message (\<^verbatim>\<open>GuiCloseModalMessage\<close>) with uuid \<open>u\<close> have the same
  redundancy key, whatever the other fields of the open message are and whenever the
  two keys are computed.
\<close>

theorem modal_open_close_same_key:
  "fst (redundancy_key (GuiModalMessage order u title) e)
     = fst (redundancy_key (GuiCloseModalMessage u) e')"
  by simp

section \<open>C10: scene pointer events\<close>

text \<open>
  C10. The redundancy key of a \<^verbatim>\<open>ScenePointerEnableMessage\<close> depends on its
  \<^verbatim>\<open>event_type\<close> and on its \<^verbatim>\<open>enable\<close> flag: two such messages have equal keys if and
  only if both fields are equal. In particular an enable and a disable message for the
  same event type have different keys.
\<close>

theorem scene_pointer_enable_key_iff: "fst (redundancy_key (ScenePointerEnableMessage en1 et1) e1)
            = fst (redundancy_key (ScenePointerEnableMessage en2 et2) e2)
          \<longleftrightarrow> et1 = et2 \<and> en1 = en2"
  by (cases en1; cases en2; cases et1; cases et2)
     (simp_all add: lower_def str_bool_def lower_char_def)

end
